theory Spec2Isabelle
  imports Complex_Main "HOL-Library.AList"
begin

section \<open>Python values, exceptions and log records\<close>

text \<open>
  The documents and their metadata are untyped Python dictionaries. A dictionary is an
  association list with string keys (insertion order kept, as in Python); the values that
  occur in the pipeline are strings, integers, nested dictionaries and \<open>None\<close>.
  A \<open>string\<close> stands for a Python \<open>str\<close>, one \<open>char\<close> per code point.
\<close>

datatype pyval = PStr string | PInt int | PDict "(string \<times> pyval) list" | PNone

type_synonym pydict = "(string \<times> pyval) list"

text \<open>Every \<open>raise\<close> of the source, and every exception a Python operation can raise there.\<close>

datatype py_error =
    KeyError string
  | AttributeError string
  | TypeError string
  | ValueError string
  | ProviderError string

text \<open>\<open>str(e)\<close>: the message; for a \<open>KeyError\<close> the \<open>repr\<close> of the missing key.\<close>

fun err_str :: "py_error \<Rightarrow> string" where
  "err_str (KeyError k) = [CHR 0x27] @ k @ [CHR 0x27]"
| "err_str (AttributeError m) = m"
| "err_str (TypeError m) = m"
| "err_str (ValueError m) = m"
| "err_str (ProviderError m) = m"

text \<open>
  A call of \<open>log_with_phase(logger, level, phase, message)\<close> is recorded as the level, the
  phase, the text of the f-string and the values interpolated into it, in order. Elapsed
  wall-clock times are left out of the interpolated values.
\<close>

datatype level = Debug | Info | Warning | Error

type_synonym log_entry = "level \<times> string \<times> string \<times> pyval list"

fun type_name :: "pyval \<Rightarrow> string" where
  "type_name (PStr _) = ''str''"
| "type_name (PInt _) = ''int''"
| "type_name (PDict _) = ''dict''"
| "type_name PNone = ''NoneType''"

text \<open>\<open>d[k]\<close> on a dictionary.\<close>

definition getitem :: "pydict \<Rightarrow> string \<Rightarrow> py_error + pyval" where
  "getitem d k = (case map_of d k of None \<Rightarrow> Inl (KeyError k) | Some v \<Rightarrow> Inr v)"

text \<open>\<open>v[k]\<close> with a string key on any value.\<close>

fun subscript :: "pyval \<Rightarrow> string \<Rightarrow> py_error + pyval" where
  "subscript (PDict d) k = getitem d k"
| "subscript (PStr _) k = Inl (TypeError (''string indices must be integers, not 'str'' @ [CHR 0x27]))"
| "subscript v k = Inl (TypeError ([CHR 0x27] @ type_name v @ ''' object is not subscriptable''))"

text \<open>\<open>d.get(k, default)\<close> on a dictionary, and \<open>v.get(k, default)\<close> on any value.\<close>

definition dict_get :: "pydict \<Rightarrow> string \<Rightarrow> pyval \<Rightarrow> pyval" where
  "dict_get d k dflt = (case map_of d k of None \<Rightarrow> dflt | Some v \<Rightarrow> v)"

fun py_get :: "pyval \<Rightarrow> string \<Rightarrow> pyval \<Rightarrow> py_error + pyval" where
  "py_get (PDict d) k dflt = Inr (dict_get d k dflt)"
| "py_get v k dflt = Inl (AttributeError ([CHR 0x27] @ type_name v @ ''' object has no attribute 'get'' @ [CHR 0x27]))"

text \<open>\<open>str.isspace\<close> on the code points below 256, and \<open>str.strip()\<close>.\<close>

definition py_isspace :: "char \<Rightarrow> bool" where
  "py_isspace c = (of_char c \<in> {9, 10, 11, 12, 13, 28, 29, 30, 31, 32, 133, 160 :: nat})"

definition strip :: "string \<Rightarrow> string" where
  "strip s = rev (dropWhile py_isspace (rev (dropWhile py_isspace s)))"

text \<open>\<open>v.strip()\<close> on any value.\<close>

fun py_strip :: "pyval \<Rightarrow> py_error + string" where
  "py_strip (PStr s) = Inr (strip s)"
| "py_strip v = Inl (AttributeError ([CHR 0x27] @ type_name v @ ''' object has no attribute 'strip'' @ [CHR 0x27]))"

section \<open>The preprocessor (\<open>app/preprocessor.py\<close>)\<close>

type_synonym doc = pydict

record chunk =
  c_content :: string
  c_metadata :: pydict

text \<open>\<open>content[:200] + "..." if len(content) > 200 else content\<close>\<close>

definition content_preview :: "string \<Rightarrow> string" where
  "content_preview content =
     (if length content > 200 then take 200 content @ ''...'' else content)"

text \<open>
  \<open>{**md, k1: v1, ..., kn: vn}\<close>: the entries of \<open>md\<close>, each later key overwriting an
  earlier one in place or being appended.
\<close>

definition dict_extend :: "pydict \<Rightarrow> (string \<times> pyval) list \<Rightarrow> pydict" where
  "dict_extend md kvs = fold (\<lambda>(k, v) d. AList.update k v d) kvs md"

text \<open>
  \<open>DocumentPreprocessor._preprocess_single_document\<close>. The subscripts and the method call
  raise as Python does: \<open>doc['content']\<close> and \<open>doc['metadata']\<close> a \<open>KeyError\<close>,
  \<open>.strip()\<close> an \<open>AttributeError\<close> on a value that is no string, \<open>**\<close> a \<open>TypeError\<close>
  on a value that is no mapping.
\<close>

definition preprocess_single_document :: "doc \<Rightarrow> nat \<Rightarrow> py_error + chunk" where
  "preprocess_single_document doc doc_id =
     (case getitem doc ''content'' of
        Inl e \<Rightarrow> Inl e
      | Inr cv \<Rightarrow>
          (case py_strip cv of
             Inl e \<Rightarrow> Inl e
           | Inr content \<Rightarrow>
               (case getitem doc ''metadata'' of
                  Inl e \<Rightarrow> Inl e
                | Inr (PDict md) \<Rightarrow>
                    Inr \<lparr>c_content = content,
                         c_metadata = dict_extend md
                           [(''chunk_id'', PInt (int doc_id)),
                            (''chunk_index'', PInt 0),
                            (''total_chunks'', PInt 1),
                            (''content_preview'', PStr (content_preview content))]\<rparr>
                | Inr mv \<Rightarrow>
                    Inl (TypeError ([CHR 0x27] @ type_name mv @ ''' object is not a mapping'')))))"

text \<open>
  The body of the \<open>try\<close> in \<open>preprocess_documents\<close>: the list \<open>processed_docs\<close> as the
  body leaves it, and either the exception it raised or the debug record it logged. The
  append comes before the f-string of the debug record is evaluated, so a \<open>KeyError\<close> of
  \<open>doc['metadata']['filename']\<close> or \<open>doc['metadata']['size']\<close> leaves the chunk appended.
\<close>

definition try_document ::
  "doc \<Rightarrow> nat \<Rightarrow> chunk list \<Rightarrow> chunk list \<times> (py_error + log_entry)" where
  "try_document doc i processed_docs =
     (case preprocess_single_document doc i of
        Inl e \<Rightarrow> (processed_docs, Inl e)
      | Inr processed_doc \<Rightarrow>
          (let processed_docs' = processed_docs @ [processed_doc] in
           case getitem doc ''metadata'' of
             Inl e \<Rightarrow> (processed_docs', Inl e)
           | Inr mv \<Rightarrow>
               (case subscript mv ''filename'' of
                  Inl e \<Rightarrow> (processed_docs', Inl e)
                | Inr fn \<Rightarrow>
                    (case subscript mv ''size'' of
                       Inl e \<Rightarrow> (processed_docs', Inl e)
                     | Inr sz \<Rightarrow>
                         (processed_docs',
                          Inr (Debug, ''preprocessing'',
                               ''Processed {} (1 chunk, {} bytes)'', [fn, sz]))))))"

text \<open>
  The \<open>except Exception as e\<close> handler: it evaluates
  \<open>doc['metadata'].get('filename', 'unknown')\<close> for its message, outside any \<open>try\<close>.
\<close>

definition except_document :: "doc \<Rightarrow> py_error \<Rightarrow> py_error + log_entry" where
  "except_document doc e =
     (case getitem doc ''metadata'' of
        Inl e' \<Rightarrow> Inl e'
      | Inr mv \<Rightarrow>
          (case py_get mv ''filename'' (PStr ''unknown'') of
             Inl e' \<Rightarrow> Inl e'
           | Inr fn \<Rightarrow>
               Inr (Error, ''preprocessing'',
                    ''Failed to preprocess {}: {}'', [fn, PStr (err_str e)])))"

text \<open>The \<open>for i, doc in enumerate(documents)\<close> loop, with the records logged so far.\<close>

fun preprocess_loop ::
  "nat \<Rightarrow> doc list \<Rightarrow> chunk list \<Rightarrow> log_entry list
     \<Rightarrow> (py_error + chunk list) \<times> log_entry list" where
  "preprocess_loop i [] processed_docs lg = (Inr processed_docs, lg)"
| "preprocess_loop i (doc # docs) processed_docs lg =
     (case try_document doc i processed_docs of
        (processed_docs', Inr entry) \<Rightarrow>
          preprocess_loop (Suc i) docs processed_docs' (lg @ [entry])
      | (processed_docs', Inl e) \<Rightarrow>
          (case except_document doc e of
             Inl e' \<Rightarrow> (Inl e', lg)
           | Inr entry \<Rightarrow>
               preprocess_loop (Suc i) docs processed_docs' (lg @ [entry])))"

text \<open>\<open>DocumentPreprocessor.preprocess_documents\<close>: the result or the exception, and the log.\<close>

definition preprocess_documents ::
  "doc list \<Rightarrow> (py_error + chunk list) \<times> log_entry list" where
  "preprocess_documents documents =
     (case preprocess_loop 0 documents []
             [(Info, ''preprocessing'', ''Starting preprocessing of {} documents'',
               [PInt (int (length documents))])] of
        (Inl e, lg) \<Rightarrow> (Inl e, lg)
      | (Inr processed_docs, lg) \<Rightarrow>
          (Inr processed_docs,
           lg @ [(Info, ''preprocessing'', ''Preprocessing completed: {} chunks'',
                  [PInt (int (length processed_docs))])]))"

section \<open>The external collaborators\<close>

text \<open>
  The vector index, the embedding provider, the language model, the file system and the
  clock are outside the repository. One value of \<open>ext\<close> fixes what each of their calls
  answers: a result, or the exception it raises. An index handle is an opaque number.
\<close>

type_synonym vindex = nat

text \<open>
  A retrieved node (\<open>NodeWithScore\<close>): its text, its metadata and its \<open>score\<close>
  attribute, which the source tests with \<open>hasattr\<close> and which may hold \<open>None\<close>.
\<close>

datatype score_attr = NoScore | ScoreNone | Score real

record node =
  n_text :: string
  n_metadata :: pydict
  n_score :: score_attr

record ext =
  path_exists :: "string \<Rightarrow> bool"
  load_documents :: "string list \<Rightarrow> doc list"
  chroma_open :: "string \<Rightarrow> py_error + vindex"
  chroma_collection :: "string \<Rightarrow> py_error option"
  from_documents :: "string \<Rightarrow> chunk list \<Rightarrow> py_error + vindex"
  engine_init :: "vindex \<Rightarrow> py_error option"
  vector_retrieve :: "vindex \<Rightarrow> int \<Rightarrow> string \<Rightarrow> py_error + node list"
  synthesize :: "string \<Rightarrow> node list \<Rightarrow> py_error + string"
  retrieval_elapsed :: real
  response_elapsed :: real
  total_elapsed :: real

section \<open>The retriever (\<open>app/retriever.py\<close>)\<close>

record vector_index_retriever =
  vr_index :: vindex
  similarity_top_k :: int

datatype postprocessor = SimilarityPostprocessor real

record query_engine =
  qe_retriever :: vector_index_retriever
  node_postprocessors :: "postprocessor list"

record rag_retriever =
  r_index :: vindex
  r_top_k :: int
  r_retriever :: vector_index_retriever
  r_query_engine :: query_engine

text \<open>
  \<open>RAGRetriever.__init__\<close>: the retriever is bound to the index and to \<open>top_k\<close>, the query
  engine to that retriever and to one postprocessor with the cutoff 0.7. The library's
  constructors may raise (\<open>engine_init\<close>).
\<close>

definition RAGRetriever_init :: "ext \<Rightarrow> vindex \<Rightarrow> int \<Rightarrow> py_error + rag_retriever" where
  "RAGRetriever_init x index top_k =
     (case engine_init x index of
        Some e \<Rightarrow> Inl e
      | None \<Rightarrow>
          (let retriever = \<lparr>vr_index = index, similarity_top_k = top_k\<rparr> in
           Inr \<lparr>r_index = index, r_top_k = top_k, r_retriever = retriever,
                r_query_engine =
                  \<lparr>qe_retriever = retriever,
                   node_postprocessors = [SimilarityPostprocessor (7 / 10)]\<rparr>\<rparr>))"

text \<open>\<open>node.score if hasattr(node, 'score') else 0.0\<close>; \<open>None\<close> is Python's \<open>None\<close>.\<close>

definition node_score :: "node \<Rightarrow> real option" where
  "node_score n = (case n_score n of NoScore \<Rightarrow> Some 0 | ScoreNone \<Rightarrow> None | Score s \<Rightarrow> Some s)"

text \<open>\<open>str(i)\<close> for a natural number.\<close>

fun decimal :: "nat \<Rightarrow> string" where
  "decimal n =
     (if n < 10 then [''0123456789'' ! n]
      else decimal (n div 10) @ [''0123456789'' ! (n mod 10)])"

declare decimal.simps [simp del]

text \<open>\<open>node.metadata.get('filename', node.metadata.get('path', f'doc_{i}'))\<close>\<close>

definition title_of :: "nat \<Rightarrow> node \<Rightarrow> pyval" where
  "title_of i n =
     dict_get (n_metadata n) ''filename''
       (dict_get (n_metadata n) ''path'' (PStr (''doc_'' @ decimal i)))"

record node_data =
  nd_content :: string
  nd_metadata :: pydict
  nd_score :: real
  nd_rank :: nat

text \<open>
  The loop of \<open>retrieve_documents\<close> over \<open>enumerate(retrieved_nodes)\<close>. The debug record
  formats the score with \<open>:.3f\<close>, which raises a \<open>TypeError\<close> on \<open>None\<close>; the list built so
  far is then lost with the call, so a \<open>node_data\<close> only ever carries a number.
\<close>

fun retrieve_loop ::
  "nat \<Rightarrow> node list \<Rightarrow> node_data list \<Rightarrow> pyval list
     \<Rightarrow> py_error + node_data list \<times> pyval list" where
  "retrieve_loop i [] results doc_titles = Inr (results, doc_titles)"
| "retrieve_loop i (n # ns) results doc_titles =
     (case node_score n of
        None \<Rightarrow> Inl (TypeError ''unsupported format string passed to NoneType.__format__'')
      | Some s \<Rightarrow>
          retrieve_loop (Suc i) ns
            (results @ [\<lparr>nd_content = n_text n, nd_metadata = n_metadata n,
                         nd_score = s, nd_rank = i + 1\<rparr>])
            (doc_titles @ [title_of i n]))"

text \<open>\<open>', '.join(titles)\<close>: the first item that is no string raises a \<open>TypeError\<close>.\<close>

fun join_error :: "nat \<Rightarrow> pyval list \<Rightarrow> py_error option" where
  "join_error k [] = None"
| "join_error k (PStr _ # ts) = join_error (Suc k) ts"
| "join_error k (t # ts) =
     Some (TypeError (''sequence item '' @ decimal k @ '': expected str instance, ''
                      @ type_name t @ '' found''))"

record retrieval_outcome =
  ro_query :: string
  ro_results :: "node_data list"
  ro_retrieval_time :: real
  ro_total_results :: nat

text \<open>
  \<open>RAGRetriever.retrieve_documents\<close>: the nodes of \<open>self.retriever.retrieve(query)\<close>, one
  result per node. The \<open>except\<close> clause logs and re-raises.
\<close>

definition retrieve_documents :: "ext \<Rightarrow> rag_retriever \<Rightarrow> string \<Rightarrow> py_error + retrieval_outcome" where
  "retrieve_documents x r query =
     (case vector_retrieve x (vr_index (r_retriever r)) (similarity_top_k (r_retriever r)) query of
        Inl e \<Rightarrow> Inl e
      | Inr retrieved_nodes \<Rightarrow>
          (case retrieve_loop 0 retrieved_nodes [] [] of
             Inl e \<Rightarrow> Inl e
           | Inr (results, doc_titles) \<Rightarrow>
               (case join_error 0 (take 3 doc_titles) of
                  Some e \<Rightarrow> Inl e
                | None \<Rightarrow>
                    Inr \<lparr>ro_query = query, ro_results = results,
                         ro_retrieval_time = retrieval_elapsed x,
                         ro_total_results = length results\<rparr>)))"

text \<open>
  Modelled from the spec: the library's \<open>SimilarityPostprocessor\<close>, which the
  repository configures but does not contain. A postprocessor discards the candidates
  whose score is \<open>None\<close> or below its cutoff and keeps the others in order; reading
  \<open>score\<close> on a node without that attribute raises. The postprocessors of an engine run
  one after the other.
\<close>

fun postprocess_nodes :: "postprocessor \<Rightarrow> node list \<Rightarrow> py_error + node list" where
  "postprocess_nodes p [] = Inr []"
| "postprocess_nodes (SimilarityPostprocessor cutoff) (n # ns) =
     (case n_score n of
        NoScore \<Rightarrow> Inl (AttributeError ''score'')
      | ScoreNone \<Rightarrow> postprocess_nodes (SimilarityPostprocessor cutoff) ns
      | Score s \<Rightarrow>
          (case postprocess_nodes (SimilarityPostprocessor cutoff) ns of
             Inl e \<Rightarrow> Inl e
           | Inr kept \<Rightarrow> Inr (if s < cutoff then kept else n # kept)))"

fun postprocess_all :: "postprocessor list \<Rightarrow> node list \<Rightarrow> py_error + node list" where
  "postprocess_all [] ns = Inr ns"
| "postprocess_all (p # ps) ns =
     (case postprocess_nodes p ns of
        Inl e \<Rightarrow> Inl e
      | Inr kept \<Rightarrow> postprocess_all ps kept)"

record response =
  resp_text :: string
  source_nodes :: "node list option"

text \<open>
  Modelled from the spec: the library's \<open>RetrieverQueryEngine.query\<close>, which the
  repository calls but does not contain. The engine runs the nearest-neighbour search of
  its retriever, passes the candidates through its postprocessors, sends the survivors
  and the query to the answer synthesizer, and answers the synthesized text with the
  survivors as the response's source nodes.
\<close>

definition engine_query :: "ext \<Rightarrow> query_engine \<Rightarrow> string \<Rightarrow> py_error + response" where
  "engine_query x qe query =
     (case vector_retrieve x (vr_index (qe_retriever qe)) (similarity_top_k (qe_retriever qe)) query of
        Inl e \<Rightarrow> Inl e
      | Inr nodes \<Rightarrow>
          (case postprocess_all (node_postprocessors qe) nodes of
             Inl e \<Rightarrow> Inl e
           | Inr kept \<Rightarrow>
               (case synthesize x query kept of
                  Inl e \<Rightarrow> Inl e
                | Inr answer \<Rightarrow> Inr \<lparr>resp_text = answer, source_nodes = Some kept\<rparr>)))"

record source_info =
  si_filename :: pyval
  si_path :: pyval
  si_score :: "real option"

text \<open>The dictionary appended to \<open>source_info\<close> for one source node.\<close>

definition source_of :: "node \<Rightarrow> source_info" where
  "source_of n =
     \<lparr>si_filename = dict_get (n_metadata n) ''filename'' (PStr ''unknown''),
      si_path = dict_get (n_metadata n) ''path'' (PStr ''unknown''),
      si_score = node_score n\<rparr>"

record generation_outcome =
  go_query :: string
  go_response :: string
  go_sources :: "source_info list"
  go_response_time :: real
  go_response_length :: nat

text \<open>
  \<open>RAGRetriever.generate_response\<close>; \<open>source_nodes = None\<close> is a response without the
  attribute (\<open>hasattr(response, 'source_nodes')\<close> false). The \<open>except\<close> clause logs and
  re-raises.
\<close>

definition generate_response :: "ext \<Rightarrow> rag_retriever \<Rightarrow> string \<Rightarrow> py_error + generation_outcome" where
  "generate_response x r query =
     (case engine_query x (r_query_engine r) query of
        Inl e \<Rightarrow> Inl e
      | Inr response \<Rightarrow>
          (let source_info = (case source_nodes response of
                                None \<Rightarrow> []
                              | Some ns \<Rightarrow> map source_of ns)
           in Inr \<lparr>go_query = query, go_response = resp_text response,
                   go_sources = source_info,
                   go_response_time = response_elapsed x,
                   go_response_length = length (resp_text response)\<rparr>))"

section \<open>The embedder (\<open>app/embedder.py\<close>)\<close>

text \<open>
  \<open>RAGEmbedder.load_existing_index\<close>: its own check of the directory, then the library
  calls that open the client, the collection and the index (\<open>chroma_open\<close>).
\<close>

definition load_existing_index :: "ext \<Rightarrow> string \<Rightarrow> py_error + vindex" where
  "load_existing_index x persist_directory =
     (if \<not> path_exists x persist_directory
      then Inl (ValueError (''Vector store directory not found: '' @ persist_directory))
      else chroma_open x persist_directory)"

text \<open>
  The loop of \<open>create_vector_store\<close> over the chunks: the first exception raised by
  \<open>doc['metadata']['chunk_id']\<close>, \<open>doc['metadata']['filename']\<close> or
  \<open>doc['metadata']['content_preview'][:50]\<close>, if any.
\<close>

fun documents_error :: "chunk list \<Rightarrow> py_error option" where
  "documents_error [] = None"
| "documents_error (d # ds) =
     (case getitem (c_metadata d) ''chunk_id'' of
        Inl e \<Rightarrow> Some e
      | Inr _ \<Rightarrow>
          (case getitem (c_metadata d) ''filename'' of
             Inl e \<Rightarrow> Some e
           | Inr _ \<Rightarrow>
               (case getitem (c_metadata d) ''content_preview'' of
                  Inl e \<Rightarrow> Some e
                | Inr (PStr _) \<Rightarrow> documents_error ds
                | Inr v \<Rightarrow>
                    Some (TypeError ([CHR 0x27] @ type_name v
                                     @ ''' object is not subscriptable'')))))"

text \<open>
  \<open>RAGEmbedder.create_vector_store\<close>: the client and its collection
  (\<open>chroma_collection\<close>), the loop, then the embedding and indexing of the documents
  (\<open>from_documents\<close>).
\<close>

definition create_vector_store :: "ext \<Rightarrow> string \<Rightarrow> chunk list \<Rightarrow> py_error + vindex" where
  "create_vector_store x persist_directory documents =
     (case chroma_collection x persist_directory of
        Some e \<Rightarrow> Inl e
      | None \<Rightarrow>
          (case documents_error documents of
             Some e \<Rightarrow> Inl e
           | None \<Rightarrow> from_documents x persist_directory documents))"

section \<open>The pipeline orchestrator (\<open>app/pipeline.py\<close>)\<close>

record pipeline =
  p_source_dirs :: "string list"
  p_persist_directory :: string
  p_top_k :: int
  p_index :: "vindex option"
  p_retriever :: "rag_retriever option"

text \<open>\<open>RAGPipeline.__init__\<close>, from the three configured values.\<close>

definition RAGPipeline_init :: "string list \<Rightarrow> string \<Rightarrow> int \<Rightarrow> pipeline" where
  "RAGPipeline_init source_dirs persist_directory top_k =
     \<lparr>p_source_dirs = source_dirs, p_persist_directory = persist_directory,
      p_top_k = top_k, p_index = None, p_retriever = None\<rparr>"

text \<open>
  The body of the \<open>try\<close> in \<open>build_index\<close> up to its \<open>return\<close>: the pipeline with the
  reopened index and its retriever, or the exception together with the pipeline as the
  assignments before the raise left it.
\<close>

definition try_reuse :: "ext \<Rightarrow> pipeline \<Rightarrow> py_error \<times> pipeline + pipeline" where
  "try_reuse x s =
     (case load_existing_index x (p_persist_directory s) of
        Inl e \<Rightarrow> Inl (e, s)
      | Inr idx \<Rightarrow>
          (let s1 = s\<lparr>p_index := Some idx\<rparr> in
           case RAGRetriever_init x idx (p_top_k s1) of
             Inl e \<Rightarrow> Inl (e, s1)
           | Inr r \<Rightarrow> Inr (s1\<lparr>p_retriever := Some r\<rparr>)))"

text \<open>
  \<open>build_index\<close> from \<open># Build new index\<close> on: the outcome of the call, the pipeline it
  leaves, and the log.
\<close>

definition full_rebuild ::
  "ext \<Rightarrow> pipeline \<Rightarrow> log_entry list \<Rightarrow> (py_error + unit) \<times> pipeline \<times> log_entry list" where
  "full_rebuild x s lg0 =
     (let lg1 = lg0 @ [(Info, ''pipeline'', ''Building new index from source documents'', [])];
          documents = load_documents x (p_source_dirs s)
      in if documents = []
         then (Inl (ValueError ''No documents loaded. Check source directories.''), s, lg1)
         else
           (case preprocess_documents documents of
              (Inl e, plg) \<Rightarrow> (Inl e, s, lg1 @ plg)
            | (Inr processed_docs, plg) \<Rightarrow>
                (case create_vector_store x (p_persist_directory s) processed_docs of
                   Inl e \<Rightarrow> (Inl e, s, lg1 @ plg)
                 | Inr idx \<Rightarrow>
                     (let s1 = s\<lparr>p_index := Some idx\<rparr> in
                      case RAGRetriever_init x idx (p_top_k s1) of
                        Inl e \<Rightarrow> (Inl e, s1, lg1 @ plg)
                      | Inr r \<Rightarrow>
                          (Inr (), s1\<lparr>p_retriever := Some r\<rparr>,
                           lg1 @ plg
                           @ [(Info, ''pipeline'',
                               ''Index building completed. Processed {} documents'',
                               [PInt (int (length documents))])])))))"

text \<open>\<open>RAGPipeline.build_index\<close>.\<close>

definition build_index ::
  "ext \<Rightarrow> pipeline \<Rightarrow> bool \<Rightarrow> (py_error + unit) \<times> pipeline \<times> log_entry list" where
  "build_index x s force_rebuild =
     (let lg0 = [(Info, ''pipeline'', ''Starting index building process'', [])] in
      if \<not> force_rebuild \<and> path_exists x (p_persist_directory s)
      then
        (case try_reuse x s of
           Inr s' \<Rightarrow> (Inr (), s', lg0 @ [(Info, ''pipeline'', ''Loaded existing index'', [])])
         | Inl (e, s1) \<Rightarrow>
             full_rebuild x s1
               (lg0 @ [(Warning, ''pipeline'',
                        ''Failed to load existing index: {}. Rebuilding...'',
                        [PStr (err_str e)])]))
      else full_rebuild x s lg0)"

datatype query_result = Retrieved retrieval_outcome | Generated generation_outcome

text \<open>
  \<open>RAGPipeline.query\<close>: the result dictionary of the retriever and the value stored under
  \<open>total_processing_time\<close>. The \<open>except\<close> clause logs and re-raises.
\<close>

definition query :: "ext \<Rightarrow> pipeline \<Rightarrow> string \<Rightarrow> bool \<Rightarrow> py_error + query_result \<times> real" where
  "query x s query_text retrieve_only =
     (case p_retriever s of
        None \<Rightarrow> Inl (ValueError ''Pipeline not initialized. Call build_index() first.'')
      | Some r \<Rightarrow>
          (case (if retrieve_only
                 then map_sum id Retrieved (retrieve_documents x r query_text)
                 else map_sum id Generated (generate_response x r query_text)) of
             Inl e \<Rightarrow> Inl e
           | Inr result \<Rightarrow> Inr (result, total_elapsed x)))"

section \<open>The service handler (\<open>app/main.py\<close>)\<close>

record query_request =
  q_query :: string
  q_retrieve_only :: bool
  q_top_k :: "int option"

datatype source_entry = SourceEntry source_info | ResultEntry node_data

record query_response =
  qr_query :: string
  qr_response :: "string option"
  qr_sources :: "source_entry list"
  qr_retrieval_time :: real
  qr_total_processing_time :: real
  qr_total_results :: nat
  qr_retrieve_only :: bool
  qr_response_length :: nat

datatype http_result = HTTPException nat string | Success query_response

text \<open>The \<open>QueryResponse\<close> built from the result dictionary, one \<open>.get\<close> per field.\<close>

fun prepare_response :: "query_request \<Rightarrow> query_result \<times> real \<Rightarrow> query_response" where
  "prepare_response request (Retrieved ro, total_time) =
     \<lparr>qr_query = ro_query ro, qr_response = None,
      qr_sources = map ResultEntry (ro_results ro),
      qr_retrieval_time = ro_retrieval_time ro,
      qr_total_processing_time = total_time,
      qr_total_results = ro_total_results ro,
      qr_retrieve_only = q_retrieve_only request,
      qr_response_length = 0\<rparr>"
| "prepare_response request (Generated go, total_time) =
     \<lparr>qr_query = go_query go, qr_response = Some (go_response go),
      qr_sources = map SourceEntry (go_sources go),
      qr_retrieval_time = 0,
      qr_total_processing_time = total_time,
      qr_total_results = length (go_sources go),
      qr_retrieve_only = q_retrieve_only request,
      qr_response_length = (if go_response go \<noteq> [] then length (go_response go) else 0)\<rparr>"

text \<open>\<open>query_documents\<close>, the handler of \<open>POST /query\<close>, on the process-wide pipeline.\<close>

definition query_documents :: "ext \<Rightarrow> pipeline \<Rightarrow> query_request \<Rightarrow> http_result" where
  "query_documents x rag_pipeline request =
     (if strip (q_query request) = []
      then HTTPException 400 ''Query cannot be empty''
      else
        (case query x rag_pipeline (q_query request) (q_retrieve_only request) of
           Inl e \<Rightarrow> HTTPException 500 (err_str e)
         | Inr result \<Rightarrow> Success (prepare_response request result)))"

section \<open>Example inputs\<close>

text \<open>
  Two loaded files, and an index that holds two passages of the first file (the library
  splits a long document into several nodes, each with the document's metadata) and one
  of the second.
\<close>

definition demo_docs :: "doc list" where
  "demo_docs =
     [[(''content'', PStr '' # Scene ''),
       (''metadata'', PDict [(''path'', PStr ''docs/a.md''), (''filename'', PStr ''a.md''),
                             (''extension'', PStr ''.md''), (''size'', PInt 9),
                             (''directory'', PStr ''docs'')])],
      [(''content'', PStr ''x = 1''),
       (''metadata'', PDict [(''path'', PStr ''src/b.py''), (''filename'', PStr ''b.py''),
                             (''extension'', PStr ''.py''), (''size'', PInt 5),
                             (''directory'', PStr ''src'')])]]"

definition demo_nodes :: "node list" where
  "demo_nodes =
     [\<lparr>n_text = ''# Scene'',
       n_metadata = [(''path'', PStr ''docs/a.md''), (''filename'', PStr ''a.md''),
                     (''chunk_id'', PInt 0)],
       n_score = Score (9 / 10)\<rparr>,
      \<lparr>n_text = ''## Camera'',
       n_metadata = [(''path'', PStr ''docs/a.md''), (''filename'', PStr ''a.md''),
                     (''chunk_id'', PInt 0)],
       n_score = Score (8 / 10)\<rparr>,
      \<lparr>n_text = ''x = 1'',
       n_metadata = [(''path'', PStr ''src/b.py''), (''filename'', PStr ''b.py''),
                     (''chunk_id'', PInt 1)],
       n_score = Score (1 / 2)\<rparr>]"

text \<open>A working environment: the store opens, the search answers the nodes above.\<close>

definition demo_ext :: ext where
  "demo_ext =
     \<lparr>path_exists = (\<lambda>p. True),
      load_documents = (\<lambda>dirs. demo_docs),
      chroma_open = (\<lambda>p. Inr 1),
      chroma_collection = (\<lambda>p. None),
      from_documents = (\<lambda>p chunks. Inr 2),
      engine_init = (\<lambda>idx. None),
      vector_retrieve = (\<lambda>idx k q. Inr (take (nat k) demo_nodes)),
      synthesize = (\<lambda>q ns. Inr ''A scene is a canvas.''),
      retrieval_elapsed = 1 / 10,
      response_elapsed = 2,
      total_elapsed = 3\<rparr>"

text \<open>The same with a store whose collection is missing, and with no file to load.\<close>

definition corrupt_ext :: ext where
  "corrupt_ext =
     demo_ext\<lparr>chroma_open :=
                 (\<lambda>p. Inl (ProviderError ''Collection manim_docs does not exist.''))\<rparr>"

definition empty_ext :: ext where
  "empty_ext = corrupt_ext\<lparr>load_documents := (\<lambda>dirs. [])\<rparr>"

text \<open>The same with a search that fails.\<close>

definition down_ext :: ext where
  "down_ext = demo_ext\<lparr>vector_retrieve := (\<lambda>idx k q. Inl (ProviderError ''Connection error.''))\<rparr>"

definition demo_retriever :: rag_retriever where
  "demo_retriever =
     \<lparr>r_index = 1, r_top_k = 5,
      r_retriever = \<lparr>vr_index = 1, similarity_top_k = 5\<rparr>,
      r_query_engine =
        \<lparr>qe_retriever = \<lparr>vr_index = 1, similarity_top_k = 5\<rparr>,
         node_postprocessors = [SimilarityPostprocessor (7 / 10)]\<rparr>\<rparr>"

definition fresh_pipeline :: pipeline where
  "fresh_pipeline = RAGPipeline_init [''docs'', ''src''] ''./vectorstore'' 5"

definition ready_pipeline :: pipeline where
  "ready_pipeline = fresh_pipeline\<lparr>p_index := Some 1, p_retriever := Some demo_retriever\<rparr>"

text \<open>What \<open>generate_response\<close> answers in the working environment.\<close>

definition demo_generation :: generation_outcome where
  "demo_generation =
     \<lparr>go_query = ''What is a scene?'', go_response = ''A scene is a canvas.'',
      go_sources =
        [\<lparr>si_filename = PStr ''a.md'', si_path = PStr ''docs/a.md'', si_score = Some (9 / 10)\<rparr>,
         \<lparr>si_filename = PStr ''a.md'', si_path = PStr ''docs/a.md'', si_score = Some (8 / 10)\<rparr>],
      go_response_time = 2, go_response_length = 20\<rparr>"

section \<open>Properties of the preprocessor\<close>

lemma length_content_preview: "length (content_preview c) \<le> 203"
  by (simp add: content_preview_def)

lemma map_of_dict_extend_last:
  "map_of (dict_extend md (kvs @ [(k, v)])) k = Some v"
  by (simp add: dict_extend_def update_conv')

lemma preprocess_single_document_wf:
  assumes "map_of doc ''content'' = Some (PStr raw)"
    and "map_of doc ''metadata'' = Some (PDict md)"
  shows "preprocess_single_document doc i =
           Inr \<lparr>c_content = strip raw,
                c_metadata = dict_extend md
                  ([(''chunk_id'', PInt (int i)), (''chunk_index'', PInt 0),
                    (''total_chunks'', PInt 1)]
                   @ [(''content_preview'', PStr (content_preview (strip raw)))])\<rparr>"
  using assms by (simp add: preprocess_single_document_def getitem_def)

lemma preprocess_single_document_Inr:
  assumes "preprocess_single_document doc i = Inr ch"
  shows "\<exists>raw md. map_of doc ''content'' = Some (PStr raw)
                \<and> map_of doc ''metadata'' = Some (PDict md)"
  using assms
  by (auto simp: preprocess_single_document_def getitem_def
           split: option.splits sum.splits pyval.splits elim: py_strip.elims)

text \<open>
  C8. For a document whose content is a string and whose metadata is a dictionary (these
  are the documents the chunker produces a chunk for), the chunk's \<open>content_preview\<close> is
  the trimmed content itself when that has at most 200 characters, its first 200
  characters followed by the marker \<open>...\<close> otherwise, and never longer than 203
  characters.
\<close>

theorem content_preview_bounded:
  assumes "map_of doc ''content'' = Some (PStr raw)"
    and "map_of doc ''metadata'' = Some (PDict md)"
  shows "\<exists>ch p. preprocess_single_document doc i = Inr ch
           \<and> c_content ch = strip raw
           \<and> map_of (c_metadata ch) ''content_preview'' = Some (PStr p)
           \<and> (if length (strip raw) \<le> 200 then p = strip raw
              else p = take 200 (strip raw) @ ''...'')
           \<and> length p \<le> 203"
proof -
  let ?p = "content_preview (strip raw)"
  let ?ch = "\<lparr>c_content = strip raw,
              c_metadata = dict_extend md
                ([(''chunk_id'', PInt (int i)), (''chunk_index'', PInt 0),
                  (''total_chunks'', PInt 1)]
                 @ [(''content_preview'', PStr ?p)])\<rparr>"
  have run: "preprocess_single_document doc i = Inr ?ch"
    by (rule preprocess_single_document_wf [OF assms])
  have look: "map_of (c_metadata ?ch) ''content_preview'' = Some (PStr ?p)"
    by (simp only: chunk.simps map_of_dict_extend_last)
  have shape: "if length (strip raw) \<le> 200 then ?p = strip raw
               else ?p = take 200 (strip raw) @ ''...''"
    by (simp add: content_preview_def)
  have bound: "length ?p \<le> 203"
    by (rule length_content_preview)
  from run look shape bound show ?thesis
    by (intro exI [of _ ?ch] exI [of _ ?p]) simp
qed

theorem content_preview_bounded_witness:
  "\<exists>ch p. preprocess_single_document
             [(''content'', PStr ''  def f(): pass  ''),
              (''metadata'', PDict [(''filename'', PStr ''a.py'')])] 0 = Inr ch
        \<and> c_content ch = strip ''  def f(): pass  ''
        \<and> map_of (c_metadata ch) ''content_preview'' = Some (PStr p)
        \<and> (if length (strip ''  def f(): pass  '') \<le> 200
            then p = strip ''  def f(): pass  ''
            else p = take 200 (strip ''  def f(): pass  '') @ ''...'')
        \<and> length p \<le> 203"
  by (rule content_preview_bounded) simp_all

text \<open>
  C9. The chunking call is meant to survive any single failing document: the failure is
  caught, logged and the document dropped. On a document without a \<open>metadata\<close> entry the
  handler itself raises while it builds its log message, and the whole call aborts with
  that \<open>KeyError\<close>.
\<close>

theorem preprocess_documents_aborts:
  "fst (preprocess_documents
          [[(''content'', PStr ''x'')],
           [(''content'', PStr ''y''), (''metadata'', PDict [(''filename'', PStr ''b.md''), (''size'', PInt 1)])]])
     = Inl (KeyError ''metadata'')"
  by (simp add: preprocess_documents_def try_document_def except_document_def
        preprocess_single_document_def getitem_def dict_get_def)

lemma preprocess_documents_keeps_logged_failure:
  "preprocess_documents [[(''content'', PStr ''x''), (''metadata'', PDict [])]]
     = (Inr [\<lparr>c_content = ''x'',
              c_metadata = [(''chunk_id'', PInt 0), (''chunk_index'', PInt 0),
                            (''total_chunks'', PInt 1), (''content_preview'', PStr ''x'')]\<rparr>],
        [(Info, ''preprocessing'', ''Starting preprocessing of {} documents'', [PInt 1]),
         (Error, ''preprocessing'', ''Failed to preprocess {}: {}'',
          [PStr ''unknown'', PStr [CHR 0x27, CHR ''f'', CHR ''i'', CHR ''l'', CHR ''e'',
                                   CHR ''n'', CHR ''a'', CHR ''m'', CHR ''e'', CHR 0x27]]),
         (Info, ''preprocessing'', ''Preprocessing completed: {} chunks'', [PInt 1])])"
  by (simp add: preprocess_documents_def try_document_def except_document_def
        preprocess_single_document_def getitem_def dict_get_def dict_extend_def
        content_preview_def strip_def py_isspace_def)

section \<open>Evaluation of the example inputs\<close>

lemmas demo_defs = demo_ext_def corrupt_ext_def empty_ext_def down_ext_def demo_retriever_def
  fresh_pipeline_def ready_pipeline_def RAGPipeline_init_def demo_nodes_def demo_docs_def
  demo_generation_def

lemma demo_init: "RAGRetriever_init demo_ext 1 5 = Inr demo_retriever"
  by (simp add: RAGRetriever_init_def Let_def demo_defs)

lemma demo_search: "vector_retrieve demo_ext 1 5 q = Inr demo_nodes"
  by (simp add: demo_defs)

lemma demo_generate:
  "generate_response demo_ext demo_retriever ''What is a scene?'' = Inr demo_generation"
  by (simp add: generate_response_def engine_query_def demo_defs node_score_def
        source_of_def dict_get_def)

lemma demo_retriever_bound: "p_retriever ready_pipeline = Some demo_retriever"
  by (simp add: demo_defs)

lemma empty_reuse:
  "try_reuse empty_ext ready_pipeline
     = Inl (ProviderError ''Collection manim_docs does not exist.'', ready_pipeline)"
  by (simp add: try_reuse_def load_existing_index_def demo_defs)

lemma empty_build:
  "build_index empty_ext ready_pipeline False
     = (Inl (ValueError ''No documents loaded. Check source directories.''), ready_pipeline,
        [(Info, ''pipeline'', ''Starting index building process'', []),
         (Warning, ''pipeline'', ''Failed to load existing index: {}. Rebuilding...'',
          [PStr ''Collection manim_docs does not exist.'']),
         (Info, ''pipeline'', ''Building new index from source documents'', [])])"
  by (simp add: build_index_def try_reuse_def load_existing_index_def full_rebuild_def
        Let_def demo_defs)

lemma corrupt_open:
  "load_existing_index corrupt_ext (p_persist_directory ready_pipeline)
     = Inl (ProviderError ''Collection manim_docs does not exist.'')"
  by (simp add: load_existing_index_def demo_defs)

lemma corrupt_build: "fst (build_index corrupt_ext ready_pipeline False) = Inr ()"
  by (simp add: build_index_def try_reuse_def load_existing_index_def full_rebuild_def
      preprocess_documents_def try_document_def preprocess_single_document_def getitem_def
      create_vector_store_def RAGRetriever_init_def dict_extend_def Let_def demo_defs)

lemma down_retrieve:
  "retrieve_documents down_ext demo_retriever q = Inl (ProviderError ''Connection error.'')"
  by (simp add: retrieve_documents_def demo_defs)

section \<open>Properties of the orchestrator\<close>

lemma full_rebuild_empty:
  "load_documents x (p_source_dirs s) = [] \<Longrightarrow>
   fst (full_rebuild x s lg)
     = Inl (ValueError ''No documents loaded. Check source directories.'')"
  by (simp add: full_rebuild_def)

lemma try_reuse_frame:
  "try_reuse x s = Inl (e, s1) \<Longrightarrow>
     p_retriever s1 = p_retriever s \<and> p_source_dirs s1 = p_source_dirs s
     \<and> p_persist_directory s1 = p_persist_directory s \<and> p_top_k s1 = p_top_k s"
  by (auto simp: try_reuse_def Let_def split: sum.splits)

lemma try_reuse_open_failure:
  "load_existing_index x (p_persist_directory s) = Inl e \<Longrightarrow> try_reuse x s = Inl (e, s)"
  by (simp add: try_reuse_def)

lemma full_rebuild_error_frame:
  "full_rebuild x s lg = (Inl e, s', lg') \<Longrightarrow> p_retriever s' = p_retriever s"
  by (auto simp: full_rebuild_def Let_def split: if_splits sum.splits prod.splits)

lemma full_rebuild_outcome:
  "fst (full_rebuild x s lg1) = fst (full_rebuild x s lg2)"
  by (simp add: full_rebuild_def Let_def split: sum.splits prod.splits)

lemma full_rebuild_log: "set lg \<subseteq> set (snd (snd (full_rebuild x s lg)))"
  by (auto simp: full_rebuild_def Let_def split: sum.splits prod.splits)

lemma build_index_rebuild:
  "force_rebuild \<or> \<not> path_exists x (p_persist_directory s) \<Longrightarrow>
   build_index x s force_rebuild
     = full_rebuild x s [(Info, ''pipeline'', ''Starting index building process'', [])]"
  by (auto simp: build_index_def)

lemma build_index_fallback:
  "\<not> force_rebuild \<Longrightarrow> path_exists x (p_persist_directory s) \<Longrightarrow>
   try_reuse x s = Inl (e, s1) \<Longrightarrow>
   build_index x s force_rebuild
     = full_rebuild x s1
         [(Info, ''pipeline'', ''Starting index building process'', []),
          (Warning, ''pipeline'', ''Failed to load existing index: {}. Rebuilding...'',
           [PStr (err_str e)])]"
  by (simp add: build_index_def)

lemma build_index_reuse:
  "\<not> force_rebuild \<Longrightarrow> path_exists x (p_persist_directory s) \<Longrightarrow>
   try_reuse x s = Inr s' \<Longrightarrow>
   build_index x s force_rebuild
     = (Inr (), s',
        [(Info, ''pipeline'', ''Starting index building process'', []),
         (Info, ''pipeline'', ''Loaded existing index'', [])])"
  by (simp add: build_index_def)

text \<open>
  C1. Whenever \<open>build_index\<close> reaches the full rebuild (a forced rebuild, no persistence
  directory, or a failed attempt to reuse the persisted index) and the loader returns no
  document, the call raises the \<open>ValueError\<close> \<open>No documents loaded\<close> (the spec's
  \<open>EmptyCorpusError\<close>) to its caller.
\<close>

theorem build_index_empty_corpus:
  assumes empty: "load_documents x (p_source_dirs s) = []"
    and reaches: "force_rebuild \<or> \<not> path_exists x (p_persist_directory s)
                  \<or> isl (try_reuse x s)"
  shows "fst (build_index x s force_rebuild)
           = Inl (ValueError ''No documents loaded. Check source directories.'')"
proof (cases "force_rebuild \<or> \<not> path_exists x (p_persist_directory s)")
  case True
  then show ?thesis
    using empty by (simp only: build_index_rebuild full_rebuild_empty)
next
  case False
  with reaches obtain e s1 where r: "try_reuse x s = Inl (e, s1)"
    by (cases "try_reuse x s") auto
  from try_reuse_frame [OF r] empty have "load_documents x (p_source_dirs s1) = []"
    by simp
  then show ?thesis
    using False r by (simp add: build_index_fallback full_rebuild_empty)
qed

theorem build_index_empty_corpus_witness:
  "load_documents empty_ext (p_source_dirs ready_pipeline) = []
   \<and> isl (try_reuse empty_ext ready_pipeline)
   \<and> fst (build_index empty_ext ready_pipeline False)
       = Inl (ValueError ''No documents loaded. Check source directories.'')"
proof -
  have h1: "load_documents empty_ext (p_source_dirs ready_pipeline) = []"
    by (simp add: demo_defs)
  have h2: "isl (try_reuse empty_ext ready_pipeline)"
    by (simp add: empty_reuse)
  from h2 have h3: "False \<or> \<not> path_exists empty_ext (p_persist_directory ready_pipeline)
                    \<or> isl (try_reuse empty_ext ready_pipeline)"
    by simp
  from build_index_empty_corpus [OF h1 h3] h1 h2 show ?thesis
    by simp
qed

text \<open>
  C2. A call of \<open>build_index\<close> that raises leaves the \<open>retriever\<close> field as it was: the
  field is assigned only once the new \<open>RAGRetriever\<close> has been constructed, and nothing
  raises after that assignment. A pipeline that had a retriever still has the same one.
\<close>

theorem build_index_failure_keeps_retriever:
  assumes fails: "fst (build_index x s force_rebuild) = Inl e"
  shows "p_retriever (fst (snd (build_index x s force_rebuild))) = p_retriever s"
proof -
  obtain s' lg where run: "build_index x s force_rebuild = (Inl e, s', lg)"
    using fails by (cases "build_index x s force_rebuild") auto
  have "p_retriever s' = p_retriever s"
  proof (cases "force_rebuild \<or> \<not> path_exists x (p_persist_directory s)")
    case True
    with run show ?thesis
      by (simp only: build_index_rebuild) (rule full_rebuild_error_frame)
  next
    case False
    show ?thesis
    proof (cases "try_reuse x s")
      case (Inl p)
      obtain e1 s1 where p: "p = (e1, s1)" by (cases p)
      from False Inl p run have "full_rebuild x s1
           [(Info, ''pipeline'', ''Starting index building process'', []),
            (Warning, ''pipeline'', ''Failed to load existing index: {}. Rebuilding...'',
             [PStr (err_str e1)])] = (Inl e, s', lg)"
        by (simp add: build_index_fallback)
      then have "p_retriever s' = p_retriever s1"
        by (rule full_rebuild_error_frame)
      moreover from Inl p have "p_retriever s1 = p_retriever s"
        by (simp add: try_reuse_frame)
      ultimately show ?thesis by simp
    next
      case (Inr s2)
      with False run show ?thesis by (simp add: build_index_reuse)
    qed
  qed
  with run show ?thesis by simp
qed

theorem build_index_failure_keeps_retriever_witness:
  "fst (build_index empty_ext ready_pipeline False)
     = Inl (ValueError ''No documents loaded. Check source directories.'')
   \<and> p_retriever (fst (snd (build_index empty_ext ready_pipeline False)))
       = Some demo_retriever"
proof -
  have h: "fst (build_index empty_ext ready_pipeline False)
             = Inl (ValueError ''No documents loaded. Check source directories.'')"
    by (simp add: empty_build)
  from build_index_failure_keeps_retriever [OF h] h show ?thesis
    by (simp add: demo_retriever_bound)
qed

text \<open>
  C3. With \<open>force_rebuild\<close> false and the persistence directory present, \<open>build_index\<close>
  first tries to open the persisted index. When that open raises, whatever the
  exception, the call logs a warning carrying the exception's text and goes on with the
  full rebuild from the unchanged pipeline: its outcome is the outcome of the full
  rebuild, not the exception of the open.
\<close>

theorem build_index_open_failure_recovered:
  assumes present: "path_exists x (p_persist_directory s)"
    and failed: "load_existing_index x (p_persist_directory s) = Inl e"
  shows "build_index x s False
           = full_rebuild x s
               [(Info, ''pipeline'', ''Starting index building process'', []),
                (Warning, ''pipeline'', ''Failed to load existing index: {}. Rebuilding...'',
                 [PStr (err_str e)])]
       \<and> fst (build_index x s False) = fst (full_rebuild x s [])
       \<and> (Warning, ''pipeline'', ''Failed to load existing index: {}. Rebuilding...'',
            [PStr (err_str e)]) \<in> set (snd (snd (build_index x s False)))"
proof -
  let ?lg = "[(Info, ''pipeline'', ''Starting index building process'', []),
              (Warning, ''pipeline'', ''Failed to load existing index: {}. Rebuilding...'',
               [PStr (err_str e)])]"
  from failed have "try_reuse x s = Inl (e, s)"
    by (rule try_reuse_open_failure)
  with present have run: "build_index x s False = full_rebuild x s ?lg"
    by (simp add: build_index_fallback)
  have out: "fst (full_rebuild x s ?lg) = fst (full_rebuild x s [])"
    by (rule full_rebuild_outcome)
  have "set ?lg \<subseteq> set (snd (snd (full_rebuild x s ?lg)))"
    by (rule full_rebuild_log)
  then have logged: "(Warning, ''pipeline'', ''Failed to load existing index: {}. Rebuilding...'',
            [PStr (err_str e)]) \<in> set (snd (snd (full_rebuild x s ?lg)))"
    by simp
  from run out logged show ?thesis
    by (simp only: simp_thms)
qed

theorem build_index_open_failure_recovered_witness:
  "path_exists corrupt_ext (p_persist_directory ready_pipeline)
   \<and> load_existing_index corrupt_ext (p_persist_directory ready_pipeline)
       = Inl (ProviderError ''Collection manim_docs does not exist.'')
   \<and> fst (build_index corrupt_ext ready_pipeline False) = Inr ()
   \<and> fst (full_rebuild corrupt_ext ready_pipeline []) = Inr ()
   \<and> (Warning, ''pipeline'', ''Failed to load existing index: {}. Rebuilding...'',
        [PStr ''Collection manim_docs does not exist.''])
       \<in> set (snd (snd (build_index corrupt_ext ready_pipeline False)))"
proof -
  have h1: "path_exists corrupt_ext (p_persist_directory ready_pipeline)"
    by (simp add: demo_defs)
  note h2 = corrupt_open
  note rec = build_index_open_failure_recovered [OF h1 h2, unfolded err_str.simps]
  from rec have same: "fst (build_index corrupt_ext ready_pipeline False)
                         = fst (full_rebuild corrupt_ext ready_pipeline [])"
    by (rule conjunct1 [OF conjunct2])
  from rec have logged: "(Warning, ''pipeline'',
        ''Failed to load existing index: {}. Rebuilding...'',
        [PStr ''Collection manim_docs does not exist.''])
       \<in> set (snd (snd (build_index corrupt_ext ready_pipeline False)))"
    by (rule conjunct2 [OF conjunct2])
  from same have full: "fst (full_rebuild corrupt_ext ready_pipeline []) = Inr ()"
    by (simp only: corrupt_build)
  from h1 h2 corrupt_build full logged show ?thesis
    by (intro conjI)
qed

text \<open>
  C4. \<open>query\<close> on a pipeline without a retriever, such as a freshly constructed one,
  raises the \<open>ValueError\<close> \<open>Pipeline not initialized\<close> (the spec's \<open>NotInitializedError\<close>)
  for every text and flag. With a retriever bound it calls \<open>retrieve_documents\<close> when
  \<open>retrieve_only\<close> is set and \<open>generate_response\<close> otherwise; an exception of that call
  reaches the caller unchanged, and a result is returned with the total time added.
\<close>

theorem query_dispatch:
  "query x (RAGPipeline_init dirs dir k) q retrieve_only
     = Inl (ValueError ''Pipeline not initialized. Call build_index() first.'')
   \<and> (p_retriever s = None \<longrightarrow>
        query x s q retrieve_only
          = Inl (ValueError ''Pipeline not initialized. Call build_index() first.''))
   \<and> (\<forall>r. p_retriever s = Some r \<longrightarrow>
        (\<forall>e. retrieve_documents x r q = Inl e \<longrightarrow> query x s q True = Inl e)
      \<and> (\<forall>out. retrieve_documents x r q = Inr out \<longrightarrow>
              query x s q True = Inr (Retrieved out, total_elapsed x))
      \<and> (\<forall>e. generate_response x r q = Inl e \<longrightarrow> query x s q False = Inl e)
      \<and> (\<forall>out. generate_response x r q = Inr out \<longrightarrow>
              query x s q False = Inr (Generated out, total_elapsed x)))"
  by (simp add: query_def RAGPipeline_init_def)

theorem query_dispatch_witness:
  "p_retriever fresh_pipeline = None
   \<and> query demo_ext fresh_pipeline ''What is a scene?'' False
       = Inl (ValueError ''Pipeline not initialized. Call build_index() first.'')
   \<and> p_retriever ready_pipeline = Some demo_retriever
   \<and> retrieve_documents down_ext demo_retriever ''What is a scene?''
       = Inl (ProviderError ''Connection error.'')
   \<and> query down_ext ready_pipeline ''What is a scene?'' True
       = Inl (ProviderError ''Connection error.'')
   \<and> generate_response demo_ext demo_retriever ''What is a scene?'' = Inr demo_generation
   \<and> query demo_ext ready_pipeline ''What is a scene?'' False
       = Inr (Generated demo_generation, 3)"
proof -
  have h1: "p_retriever fresh_pipeline = None"
    by (simp add: demo_defs)
  have t: "total_elapsed demo_ext = 3"
    by (simp add: demo_defs)
  from query_dispatch [where s = fresh_pipeline and x = demo_ext
                         and q = "''What is a scene?''" and retrieve_only = False] h1
  have a: "query demo_ext fresh_pipeline ''What is a scene?'' False
             = Inl (ValueError ''Pipeline not initialized. Call build_index() first.'')"
    by blast
  from query_dispatch [where s = ready_pipeline and x = down_ext
                         and q = "''What is a scene?''"]
       demo_retriever_bound down_retrieve
  have b: "query down_ext ready_pipeline ''What is a scene?'' True
             = Inl (ProviderError ''Connection error.'')"
    by blast
  from query_dispatch [where s = ready_pipeline and x = demo_ext
                         and q = "''What is a scene?''"]
       demo_retriever_bound demo_generate t
  have c: "query demo_ext ready_pipeline ''What is a scene?'' False
             = Inr (Generated demo_generation, 3)"
    by metis
  from h1 a demo_retriever_bound down_retrieve b demo_generate c show ?thesis
    by (simp only: simp_thms)
qed

section \<open>Properties of the retriever\<close>

lemma join_error_strings:
  "\<forall>t \<in> set ts. \<exists>s. t = PStr s \<Longrightarrow> join_error k ts = None"
  by (induction ts arbitrary: k) auto

lemma retrieve_loop_run:
  assumes "map node_score ns = map Some scores"
  shows "\<exists>res ts. retrieve_loop i ns results titles = Inr (res, ts)
           \<and> map nd_rank res = map nd_rank results @ [Suc i ..< Suc i + length ns]
           \<and> map nd_score res = map nd_score results @ scores
           \<and> map nd_content res = map nd_content results @ map n_text ns
           \<and> map nd_metadata res = map nd_metadata results @ map n_metadata ns
           \<and> set ts \<subseteq> set titles \<union> {title_of j n | j n. n \<in> set ns}"
  using assms
proof (induction ns arbitrary: i results titles scores)
  case Nil
  then show ?case by simp
next
  case (Cons n ns)
  from Cons.prems obtain s rest where sc: "scores = s # rest"
    and ns: "node_score n = Some s" and rest: "map node_score ns = map Some rest"
    by (cases scores) auto
  let ?results = "results @ [\<lparr>nd_content = n_text n, nd_metadata = n_metadata n,
                         nd_score = s, nd_rank = i + 1\<rparr>]"
  let ?titles = "titles @ [title_of i n]"
  from Cons.IH [OF rest, of "Suc i" ?results ?titles]
  obtain res ts where run: "retrieve_loop (Suc i) ns ?results ?titles = Inr (res, ts)"
    and rk: "map nd_rank res = map nd_rank ?results @ [Suc (Suc i) ..< Suc (Suc i) + length ns]"
    and scs: "map nd_score res = map nd_score ?results @ rest"
    and ct: "map nd_content res = map nd_content ?results @ map n_text ns"
    and md: "map nd_metadata res = map nd_metadata ?results @ map n_metadata ns"
    and tt: "set ts \<subseteq> set ?titles \<union> {title_of j m | j m. m \<in> set ns}"
    by blast
  have step: "retrieve_loop i (n # ns) results titles = Inr (res, ts)"
    using ns run by simp
  have "Suc i < Suc i + length (n # ns)" by simp
  from upt_conv_Cons [OF this]
  have up: "[Suc i ..< Suc i + length (n # ns)]
              = Suc i # [Suc (Suc i) ..< Suc (Suc i) + length ns]"
    by simp
  have rk': "map nd_rank res = map nd_rank results @ [Suc i ..< Suc i + length (n # ns)]"
    unfolding up using rk by simp
  have tt': "set ts \<subseteq> set titles \<union> {title_of j m | j m. m \<in> set (n # ns)}"
  proof
    fix t assume "t \<in> set ts"
    with tt have "t \<in> set titles \<or> t = title_of i n
                    \<or> (\<exists>j m. t = title_of j m \<and> m \<in> set ns)"
      by auto
    then show "t \<in> set titles \<union> {title_of j m | j m. m \<in> set (n # ns)}"
      by auto
  qed
  from step rk' scs ct md tt' sc show ?case by simp
qed

lemma postprocess_nodes_kept:
  "postprocess_nodes (SimilarityPostprocessor c) ns = Inr kept \<Longrightarrow>
     \<forall>n \<in> set kept. \<exists>s. n_score n = Score s \<and> c \<le> s"
proof (induction ns arbitrary: kept)
  case Nil
  then show ?case by simp
next
  case (Cons n ns)
  then show ?case
    by (auto split: score_attr.splits sum.splits if_splits)
qed

lemma init_engine:
  "RAGRetriever_init x idx k = Inr r \<Longrightarrow>
     r_retriever r = \<lparr>vr_index = idx, similarity_top_k = k\<rparr>
     \<and> r_query_engine r = \<lparr>qe_retriever = \<lparr>vr_index = idx, similarity_top_k = k\<rparr>,
                            node_postprocessors = [SimilarityPostprocessor (7 / 10)]\<rparr>"
  by (auto simp: RAGRetriever_init_def Let_def split: option.splits)

text \<open>
  C5. Let the retriever be constructed with \<open>top_k = k\<close>, and let the vector index answer
  the search as its interface promises: at most \<open>k\<close> nodes, each with a numeric score,
  best first (and titles that are strings, which the summary log joins). Then
  \<open>retrieve_documents\<close> returns one result per node, in order and with the node's text and
  score, none filtered out by relevance; so at most \<open>k\<close> results, with ranks 1, 2, ... and
  scores that never increase with the rank.
\<close>

theorem retrieve_documents_ranked:
  assumes init: "RAGRetriever_init x idx k = Inr r"
    and search: "vector_retrieve x idx k q = Inr nodes"
    and bounded: "int (length nodes) \<le> k"
    and scored: "map node_score nodes = map Some scores"
    and ordered: "sorted_wrt (\<lambda>a b. b \<le> a) scores"
    and titled: "\<forall>n \<in> set nodes. \<forall>j. \<exists>t. title_of j n = PStr t"
  shows "\<exists>out. retrieve_documents x r q = Inr out
           \<and> map nd_content (ro_results out) = map n_text nodes
           \<and> map nd_score (ro_results out) = scores
           \<and> int (length (ro_results out)) \<le> k
           \<and> map nd_rank (ro_results out) = [1 ..< Suc (length (ro_results out))]
           \<and> sorted_wrt (\<lambda>a b. nd_score b \<le> nd_score a) (ro_results out)"
proof -
  from retrieve_loop_run [OF scored, of 0 "[]" "[]"]
  obtain res ts where run: "retrieve_loop 0 nodes [] [] = Inr (res, ts)"
    and rk: "map nd_rank res = [Suc 0 ..< Suc 0 + length nodes]"
    and scs: "map nd_score res = scores"
    and ct: "map nd_content res = map n_text nodes"
    and tt: "set ts \<subseteq> {title_of j n | j n. n \<in> set nodes}"
    by auto
  have len: "length res = length nodes"
    using ct by (metis length_map)
  have "\<forall>t \<in> set (take 3 ts). \<exists>s. t = PStr s"
    using tt titled by (auto dest!: in_set_takeD)
  then have join: "join_error 0 (take 3 ts) = None"
    by (rule join_error_strings)
  let ?out = "\<lparr>ro_query = q, ro_results = res, ro_retrieval_time = retrieval_elapsed x,
               ro_total_results = length res\<rparr>"
  have ret: "retrieve_documents x r q = Inr ?out"
    using init_engine [OF init] search run join by (simp add: retrieve_documents_def)
  have srt: "sorted_wrt (\<lambda>a b. nd_score b \<le> nd_score a) res"
    using ordered unfolding scs [symmetric] by (simp only: sorted_wrt_map)
  have "Suc 0 + length nodes = Suc (length res)"
    by (simp only: len plus_nat.simps)
  with rk have rk1: "map nd_rank res = [1 ..< Suc (length res)]"
    by (simp only: One_nat_def)
  have bnd: "int (length res) \<le> k"
    using bounded len by simp
  show ?thesis
  proof (intro exI [of _ ?out] conjI)
    show "retrieve_documents x r q = Inr ?out" by (rule ret)
    show "map nd_content (ro_results ?out) = map n_text nodes" using ct by simp
    show "map nd_score (ro_results ?out) = scores" using scs by simp
    show "int (length (ro_results ?out)) \<le> k" using bnd by simp
    show "map nd_rank (ro_results ?out) = [1 ..< Suc (length (ro_results ?out))]"
      using rk1 by (simp only: retrieval_outcome.simps)
    show "sorted_wrt (\<lambda>a b. nd_score b \<le> nd_score a) (ro_results ?out)"
      using srt by simp
  qed
qed

theorem retrieve_documents_ranked_witness:
  "RAGRetriever_init demo_ext 1 5 = Inr demo_retriever
   \<and> vector_retrieve demo_ext 1 5 ''What is a scene?'' = Inr demo_nodes
   \<and> int (length demo_nodes) \<le> 5
   \<and> map node_score demo_nodes = map Some [9 / 10, 8 / 10, 1 / 2]
   \<and> sorted_wrt (\<lambda>a b. b \<le> a) [9 / 10, 8 / 10, 1 / 2 :: real]
   \<and> list_all (\<lambda>n. \<forall>j. \<exists>t. title_of j n = PStr t) demo_nodes
   \<and> (\<exists>out. retrieve_documents demo_ext demo_retriever ''What is a scene?'' = Inr out
          \<and> map nd_content (ro_results out) = map n_text demo_nodes
          \<and> map nd_score (ro_results out) = [9 / 10, 8 / 10, 1 / 2]
          \<and> int (length (ro_results out)) \<le> 5
          \<and> map nd_rank (ro_results out) = [1 ..< Suc (length (ro_results out))]
          \<and> sorted_wrt (\<lambda>a b. nd_score b \<le> nd_score a) (ro_results out))"
proof -
  note h1 = demo_init
  note h2 = demo_search [of "''What is a scene?''"]
  have h3: "int (length demo_nodes) \<le> 5"
    by (simp add: demo_nodes_def)
  have h4: "map node_score demo_nodes = map Some [9 / 10, 8 / 10, 1 / 2]"
    by (simp add: demo_nodes_def node_score_def)
  have h5: "sorted_wrt (\<lambda>a b. b \<le> a) [9 / 10, 8 / 10, 1 / 2 :: real]"
    by simp
  have h6: "\<forall>n \<in> set demo_nodes. \<forall>j. \<exists>t. title_of j n = PStr t"
    by (simp add: demo_nodes_def title_of_def dict_get_def)
  from h6 have h6': "list_all (\<lambda>n. \<forall>j. \<exists>t. title_of j n = PStr t) demo_nodes"
    by (simp only: list_all_iff)
  from retrieve_documents_ranked [OF h1 h2 h3 h4 h5 h6] h1 h2 h3 h4 h5 h6' show ?thesis
    by (intro conjI)
qed

text \<open>
  C6. For a retriever as \<open>RAGRetriever.__init__\<close> constructs it, every entry of the
  \<open>sources\<close> list that \<open>generate_response\<close> returns carries a numeric score of at least
  0.7, the cutoff of the engine's postprocessor.
\<close>

theorem generate_response_cutoff:
  assumes init: "RAGRetriever_init x idx k = Inr r"
    and gen: "generate_response x r q = Inr out"
  shows "\<forall>src \<in> set (go_sources out). \<exists>s. si_score src = Some s \<and> 7 / 10 \<le> s"
proof -
  from gen obtain resp where eq: "engine_query x (r_query_engine r) q = Inr resp"
    and out: "go_sources out
                = (case source_nodes resp of None \<Rightarrow> [] | Some ns \<Rightarrow> map source_of ns)"
    by (auto simp: generate_response_def Let_def split: sum.splits)
  from eq init_engine [OF init] obtain nodes kept where
    pp: "postprocess_nodes (SimilarityPostprocessor (7 / 10)) nodes = Inr kept"
    and sn: "source_nodes resp = Some kept"
    by (auto simp: engine_query_def split: sum.splits)
  from postprocess_nodes_kept [OF pp]
  have "\<forall>n \<in> set kept. \<exists>s. node_score n = Some s \<and> 7 / 10 \<le> s"
    by (auto simp: node_score_def)
  then show ?thesis
    using out sn by (auto simp: source_of_def)
qed

theorem generate_response_cutoff_witness:
  "RAGRetriever_init demo_ext 1 5 = Inr demo_retriever
   \<and> generate_response demo_ext demo_retriever ''What is a scene?'' = Inr demo_generation
   \<and> map si_score (go_sources demo_generation) = [Some (9 / 10), Some (8 / 10)]
   \<and> list_all (\<lambda>src. \<exists>s. si_score src = Some s \<and> 7 / 10 \<le> s)
         (go_sources demo_generation)"
proof -
  have scores: "map si_score (go_sources demo_generation) = [Some (9 / 10), Some (8 / 10)]"
    by (simp add: demo_generation_def)
  from generate_response_cutoff [OF demo_init demo_generate]
  have "list_all (\<lambda>src. \<exists>s. si_score src = Some s \<and> 7 / 10 \<le> s)
          (go_sources demo_generation)"
    by (simp only: list_all_iff)
  with demo_init demo_generate scores show ?thesis
    by (intro conjI)
qed

text \<open>
  C7, as the spec states it, fails: \<open>generate_response\<close> removes no duplicates. When the
  search returns two nodes of the chunk of \<open>docs/a.md\<close> (chunk 0), both above the
  cutoff, the \<open>sources\<close> list has two entries for that chunk.
\<close>

theorem generate_response_duplicates:
  "RAGRetriever_init demo_ext 1 5 = Inr demo_retriever
   \<and> vector_retrieve demo_ext 1 5 ''What is a scene?'' = Inr demo_nodes
   \<and> map (\<lambda>n. map_of (n_metadata n) ''chunk_id'') demo_nodes
       = [Some (PInt 0), Some (PInt 0), Some (PInt 1)]
   \<and> generate_response demo_ext demo_retriever ''What is a scene?'' = Inr demo_generation
   \<and> map si_path (go_sources demo_generation) = [PStr ''docs/a.md'', PStr ''docs/a.md'']
   \<and> \<not> distinct (map si_path (go_sources demo_generation))"
proof -
  have ids: "map (\<lambda>n. map_of (n_metadata n) ''chunk_id'') demo_nodes
               = [Some (PInt 0), Some (PInt 0), Some (PInt 1)]"
    by (simp add: demo_nodes_def)
  have paths: "map si_path (go_sources demo_generation) = [PStr ''docs/a.md'', PStr ''docs/a.md'']"
    by (simp add: demo_generation_def)
  then have "\<not> distinct (map si_path (go_sources demo_generation))"
    by simp
  with demo_init demo_search [of "''What is a scene?''"] ids demo_generate paths
  show ?thesis
    by (intro conjI)
qed

text \<open>
  C7, amended. The \<open>sources\<close> list has exactly one entry per source node of the engine's
  response, in the response's order; no two entries carry the same path exactly when no
  two of those source nodes do.
\<close>

theorem generate_response_sources_per_node:
  assumes gen: "generate_response x r q = Inr out"
  shows "\<exists>resp ns. engine_query x (r_query_engine r) q = Inr resp
           \<and> source_nodes resp = Some ns
           \<and> go_sources out = map source_of ns
           \<and> (distinct (map si_path (go_sources out))
                \<longleftrightarrow> distinct (map (\<lambda>n. dict_get (n_metadata n) ''path'' (PStr ''unknown'')) ns))"
proof -
  from gen obtain resp where eq: "engine_query x (r_query_engine r) q = Inr resp"
    and out: "go_sources out
                = (case source_nodes resp of None \<Rightarrow> [] | Some ns \<Rightarrow> map source_of ns)"
    by (auto simp: generate_response_def Let_def split: sum.splits)
  from eq obtain ns where sn: "source_nodes resp = Some ns"
    by (auto simp: engine_query_def split: sum.splits)
  have src: "go_sources out = map source_of ns"
    using out sn by simp
  have "map si_path (map source_of ns)
          = map (\<lambda>n. dict_get (n_metadata n) ''path'' (PStr ''unknown'')) ns"
    by (simp add: source_of_def)
  then have "distinct (map si_path (go_sources out))
               \<longleftrightarrow> distinct (map (\<lambda>n. dict_get (n_metadata n) ''path'' (PStr ''unknown'')) ns)"
    by (simp only: src)
  with eq sn src show ?thesis by blast
qed

theorem generate_response_sources_per_node_witness:
  "generate_response demo_ext demo_retriever ''What is a scene?'' = Inr demo_generation
   \<and> (\<exists>resp ns. engine_query demo_ext (r_query_engine demo_retriever) ''What is a scene?''
                   = Inr resp
          \<and> source_nodes resp = Some ns
          \<and> go_sources demo_generation = map source_of ns
          \<and> (distinct (map si_path (go_sources demo_generation))
               \<longleftrightarrow> distinct (map (\<lambda>n. dict_get (n_metadata n) ''path'' (PStr ''unknown'')) ns)))"
  using generate_response_sources_per_node [OF demo_generate] demo_generate
  by (intro conjI)

section \<open>Properties of the service handler\<close>

text \<open>
  C10. Two requests to \<open>POST /query\<close> with the same query text and the same
  \<open>retrieve_only\<close> flag lead to the same call of the pipeline and to the same answer of
  the handler, whatever their \<open>top_k\<close> fields hold.
\<close>

theorem query_documents_ignores_top_k:
  assumes "q_query r1 = q_query r2"
    and "q_retrieve_only r1 = q_retrieve_only r2"
  shows "query x s (q_query r1) (q_retrieve_only r1) = query x s (q_query r2) (q_retrieve_only r2)
       \<and> query_documents x s r1 = query_documents x s r2"
proof -
  have "prepare_response r1 res = prepare_response r2 res" for res
    using assms(2) by (cases "(r1, res)" rule: prepare_response.cases) simp_all
  then show ?thesis
    using assms by (simp add: query_documents_def split: sum.splits)
qed

lemma demo_handler:
  "(case query_documents demo_ext ready_pipeline
           \<lparr>q_query = ''What is a scene?'', q_retrieve_only = True, q_top_k = Some 1\<rparr> of
      Success resp \<Rightarrow> length (qr_sources resp) = 3 \<and> qr_total_results resp = 3
    | HTTPException code detail \<Rightarrow> False)"
  by (simp add: query_documents_def query_def retrieve_documents_def strip_def
        py_isspace_def demo_defs node_score_def title_of_def dict_get_def)

theorem query_documents_ignores_top_k_witness:
  "q_query \<lparr>q_query = ''What is a scene?'', q_retrieve_only = True, q_top_k = Some 1\<rparr>
     = q_query \<lparr>q_query = ''What is a scene?'', q_retrieve_only = True, q_top_k = None\<rparr>
   \<and> q_retrieve_only \<lparr>q_query = ''What is a scene?'', q_retrieve_only = True, q_top_k = Some 1\<rparr>
     = q_retrieve_only \<lparr>q_query = ''What is a scene?'', q_retrieve_only = True, q_top_k = None\<rparr>
   \<and> query_documents demo_ext ready_pipeline
        \<lparr>q_query = ''What is a scene?'', q_retrieve_only = True, q_top_k = Some 1\<rparr>
     = query_documents demo_ext ready_pipeline
        \<lparr>q_query = ''What is a scene?'', q_retrieve_only = True, q_top_k = None\<rparr>
   \<and> (case query_documents demo_ext ready_pipeline
              \<lparr>q_query = ''What is a scene?'', q_retrieve_only = True, q_top_k = Some 1\<rparr> of
         Success resp \<Rightarrow> length (qr_sources resp) = 3 \<and> qr_total_results resp = 3
       | HTTPException code detail \<Rightarrow> False)"
proof -
  have h1: "q_query \<lparr>q_query = ''What is a scene?'', q_retrieve_only = True, q_top_k = Some 1\<rparr>
     = q_query \<lparr>q_query = ''What is a scene?'', q_retrieve_only = True, q_top_k = None\<rparr>"
    by simp
  have h2: "q_retrieve_only \<lparr>q_query = ''What is a scene?'', q_retrieve_only = True, q_top_k = Some 1\<rparr>
     = q_retrieve_only \<lparr>q_query = ''What is a scene?'', q_retrieve_only = True, q_top_k = None\<rparr>"
    by simp
  note same = query_documents_ignores_top_k [OF h1 h2, of demo_ext ready_pipeline]
  from same have h3: "query_documents demo_ext ready_pipeline
        \<lparr>q_query = ''What is a scene?'', q_retrieve_only = True, q_top_k = Some 1\<rparr>
     = query_documents demo_ext ready_pipeline
        \<lparr>q_query = ''What is a scene?'', q_retrieve_only = True, q_top_k = None\<rparr>"
    by (rule conjunct2)
  from h1 h2 h3 demo_handler show ?thesis
    by (intro conjI)
qed

end
